theory Spec2Isabelle
  imports Main "HOL-Library.AList" "HOL-Library.Word"
begin

section \<open>OWL-ViT detection module (scenic/projects/owl\_vit/models.py)\<close>

subsection \<open>Python values: exceptions, dictionaries, parameter trees\<close>

text \<open>
  Every exception the modelled methods can raise is a value; a method returns
  \<open>error + 'a\<close>, with \<open>Inl\<close> for the raised exception.
\<close>

datatype error =
    KeyError | TypeError | IndexError | AttributeError | ValueError
  | InvalidArgument | ShapeError

definition bind_err :: "error + 'a \<Rightarrow> ('a \<Rightarrow> error + 'b) \<Rightarrow> error + 'b" where
  "bind_err r f = (case r of Inl e \<Rightarrow> Inl e | Inr v \<Rightarrow> f v)"

text \<open>
  A Python \<open>dict\<close> with string keys is an association list in insertion order.
  \<open>k in d\<close> is \<open>contains\<close>, \<open>d[k]\<close> is \<open>dict_getitem\<close> (KeyError on a
  missing key), \<open>d[k] = v\<close> is \<open>AList.update\<close> (an existing key keeps its place, a new
  one goes last), \<open>d.pop(k, None)\<close> is \<open>AList.delete\<close> (no error on a missing key)
  and \<open>d.update(other)\<close> stores the items of \<open>other\<close> in their order.
\<close>

type_synonym 'v dict = "(string \<times> 'v) list"

definition contains :: "'v dict \<Rightarrow> string \<Rightarrow> bool" where
  "contains d k = (map_of d k \<noteq> None)"

definition dict_getitem :: "'v dict \<Rightarrow> string \<Rightarrow> error + 'v" where
  "dict_getitem d k = (case map_of d k of None \<Rightarrow> Inl KeyError | Some v \<Rightarrow> Inr v)"

definition dict_update :: "'v dict \<Rightarrow> 'v dict \<Rightarrow> 'v dict" where
  "dict_update d other = fold (\<lambda>(k, v). AList.update k v) other d"

text \<open>
  A parameter tree (\<open>Params\<close>, and the state dict a checkpoint restores to) is a nested
  dictionary whose leaves are arrays. The leaf type \<open>'a\<close> is left open.
\<close>

datatype 'a pytree = Leaf 'a | Dict "(string \<times> 'a pytree) list"

text \<open>\<open>t[k]\<close> on a tree: subscripting an array with a string is an IndexError.\<close>

definition getitem :: "'a pytree \<Rightarrow> string \<Rightarrow> error + 'a pytree" where
  "getitem t k = (case t of Leaf _ \<Rightarrow> Inl IndexError | Dict d \<Rightarrow> dict_getitem d k)"

text \<open>\<open>t[k] = v\<close> on a tree, returning the tree after the assignment.\<close>

definition setitem :: "'a pytree \<Rightarrow> string \<Rightarrow> 'a pytree \<Rightarrow> error + 'a pytree" where
  "setitem t k v = (case t of Leaf _ \<Rightarrow> Inl IndexError | Dict d \<Rightarrow> Inr (Dict (AList.update k v d)))"

text \<open>
  \<open>params[k].pop(key, None)\<close>, returning \<open>params\<close> after the call: the dictionary
  stored under \<open>k\<close> is changed in place, so it stays where it is in \<open>params\<close>. An
  array has no \<open>pop\<close> (AttributeError).
\<close>

definition pop_in :: "'a pytree \<Rightarrow> string \<Rightarrow> string \<Rightarrow> error + 'a pytree" where
  "pop_in params k key =
     bind_err (getitem params k) (\<lambda>sub.
       case sub of
         Leaf _ \<Rightarrow> Inl AttributeError
       | Dict d \<Rightarrow> setitem params k (Dict (AList.delete key d)))"

subsection \<open>The module, its sub-modules and the library it calls\<close>

text \<open>
  \<open>init_config\<close> is the configuration record \<open>load\<close> reads; a field that is not set
  is \<open>None\<close>.
\<close>

record init_config =
  codebase :: "string option"
  checkpoint_path :: "string option"

text \<open>
  \<open>checkpoints.restore_checkpoint(path, target=None)\<close> belongs to the Flax library. It
  is a parameter of the model: it yields the restored state dict, or \<open>None\<close>
  (the target it was given) when there is no checkpoint at the path.
\<close>

type_synonym 'a restore = "string \<Rightarrow> 'a pytree dict option"

text \<open>
  \<open>self._embedder.load_backbone\<close> (a method of \<open>layers.ClipImageTextEmbedder\<close>)
  is a parameter: it receives the backbone subtree and the configured path.
\<close>

type_synonym 'a backbone_loader = "'a pytree \<Rightarrow> string option \<Rightarrow> error + 'a pytree"

subsection \<open>Loading parameters\<close>

definition load_variables :: "'a restore \<Rightarrow> string \<Rightarrow> error + 'a pytree dict" where
  "load_variables restore_checkpoint path =
     (case restore_checkpoint path of
        None \<Rightarrow> Inl TypeError
      | Some restored \<Rightarrow>
          if contains restored ''params'' then
            bind_err (dict_getitem restored ''params'') (\<lambda>p. Inr [(''params'', p)])
          else
            bind_err (dict_getitem restored ''optimizer'') (\<lambda>opt.
            bind_err (getitem opt ''target'') (\<lambda>t. Inr [(''params'', t)])))"

definition load ::
  "'a restore \<Rightarrow> 'a backbone_loader \<Rightarrow> 'a pytree \<Rightarrow> init_config \<Rightarrow> error + 'a pytree" where
  "load restore_checkpoint load_backbone params init_config =
     (if codebase init_config = Some ''clip'' then
        bind_err (getitem params ''backbone'') (\<lambda>old.
        bind_err (load_backbone old (checkpoint_path init_config)) (\<lambda>new.
        setitem params ''backbone'' new))
      else
        (case checkpoint_path init_config of
           None \<Rightarrow> Inl AttributeError
         | Some path \<Rightarrow>
            (case restore_checkpoint path of
               None \<Rightarrow> Inl TypeError
             | Some restored_train_state \<Rightarrow>
                 bind_err
                   (if contains restored_train_state ''optimizer'' then
                      bind_err (dict_getitem restored_train_state ''optimizer'') (\<lambda>opt.
                        getitem opt ''target'')
                    else dict_getitem restored_train_state ''params'') (\<lambda>params.
                 bind_err (pop_in params ''class_head'' ''padding'') (\<lambda>params.
                 pop_in params ''class_head'' ''padding_bias'')))))"

subsection \<open>Arrays\<close>

text \<open>
  An array is its shape and its elements in row-major order. The element type of the
  float32 arrays is left open (\<open>'a\<close>); nothing below rounds or compares floats except
  for the test \<open>mask == 0\<close>. Token arrays are \<open>jnp.int32\<close>.
\<close>

datatype 'a tensor = Tensor (shape: "nat list") (elems: "'a list")

type_synonym int32 = "32 word"

definition tmap :: "('a \<Rightarrow> 'b) \<Rightarrow> 'a tensor \<Rightarrow> 'b tensor" where
  "tmap f t = Tensor (shape t) (map f (elems t))"

text \<open>
  \<open>jnp.reshape(t, s)\<close>: same elements, new shape; the sizes must agree. The array
  library's exception for incompatible shapes is \<open>ShapeError\<close> here.
\<close>

definition reshape :: "'a tensor \<Rightarrow> nat list \<Rightarrow> error + 'a tensor" where
  "reshape t s =
     (if prod_list s = prod_list (shape t) then Inr (Tensor s (elems t)) else Inl ShapeError)"

text \<open>
  \<open>t[..., 0]\<close>: the first entry along the last axis. With last axis of length \<open>l\<close>,
  row \<open>k\<close> of the flattened leading axes occupies positions \<open>k * l ..< (k + 1) * l\<close>.
  A scalar cannot be indexed, and index 0 is out of bounds for an axis of length 0.
\<close>

definition select_first :: "'a tensor \<Rightarrow> error + 'a tensor" where
  "select_first t =
     (if shape t = [] then Inl IndexError
      else
        let l = last (shape t); ds = butlast (shape t) in
        if l = 0 then Inl IndexError
        else Inr (Tensor ds (map (\<lambda>k. elems t ! (k * l)) [0..<prod_list ds])))"

text \<open>
  Broadcasting, as the array library does it for \<open>a + b\<close>: shapes are aligned at their
  last axes; two axis lengths are compatible when they are equal or one of them is 1.
\<close>

fun bshape :: "nat list \<Rightarrow> nat list \<Rightarrow> nat list option" where
  "bshape [] ys = Some ys"
| "bshape xs [] = Some xs"
| "bshape (x # xs) (y # ys) =
     (if x = y \<or> y = 1 then map_option ((#) x) (bshape xs ys)
      else if x = 1 then map_option ((#) y) (bshape xs ys)
      else None)"

definition broadcast_shapes :: "nat list \<Rightarrow> nat list \<Rightarrow> nat list option" where
  "broadcast_shapes a b = map_option rev (bshape (rev a) (rev b))"

fun unravel :: "nat list \<Rightarrow> nat \<Rightarrow> nat list" where
  "unravel [] i = []"
| "unravel (d # ds) i = (i div prod_list ds) mod d # unravel ds i"

fun ravel :: "nat list \<Rightarrow> nat list \<Rightarrow> nat" where
  "ravel (d # ds) (j # js) = j * prod_list ds + ravel ds js"
| "ravel _ _ = 0"

definition broadcast_to :: "'a tensor \<Rightarrow> nat list \<Rightarrow> 'a list" where
  "broadcast_to t s =
     map (\<lambda>i. elems t !
            ravel (shape t)
              (map2 (\<lambda>d j. if d = 1 then 0 else j) (shape t)
                 (drop (length s - length (shape t)) (unravel s i))))
       [0..<prod_list s]"

definition add :: "'a::plus tensor \<Rightarrow> 'a tensor \<Rightarrow> error + 'a tensor" where
  "add a b =
     (case broadcast_shapes (shape a) (shape b) of
        None \<Rightarrow> Inl ShapeError
      | Some s \<Rightarrow> Inr (Tensor s (map2 (+) (broadcast_to a s) (broadcast_to b s))))"

subsection \<open>Sub-modules and utilities\<close>

text \<open>
  The learned parts of the class head: the projection of one patch's feature vector to
  its class embedding, the similarity logit of a (patch, query) pair of embeddings (with
  or without normalisation) and the large negative value given to masked-out queries.
\<close>

record 'a class_kernels =
  out_dim :: nat
  project :: "'a list \<Rightarrow> 'a list"
  similarity :: "bool \<Rightarrow> 'a list \<Rightarrow> 'a list \<Rightarrow> 'a"
  masked_logit :: 'a

definition row :: "'a tensor \<Rightarrow> nat \<Rightarrow> nat \<Rightarrow> 'a list" where
  "row t d n = take d (drop (n * d) (elems t))"

text \<open>
  Modelled from the spec: \<open>layers.ClassPredictor.__call__\<close>, the class head that
  \<open>class_predictor\<close> delegates to, is not among the sources. Section 4.2 of the
  specification: the image features [b, p, d] are projected to class embeddings
  [b, p, d']; without query embeddings only \<open>class_embeddings\<close> is returned; with them,
  a similarity logit is computed for every (patch, query) pair, giving \<open>pred_logits\<close>
  [b, p, q], and the logits of masked-out queries are set to a large negative value;
  supplying one of \<open>query_embeddings\<close> and \<open>query_mask\<close> without the other fails with
  InvalidArgument; mismatching dimensions are a ShapeError.
\<close>

definition ClassPredictor ::
  "'a::zero class_kernels \<Rightarrow> bool \<Rightarrow> 'a tensor \<Rightarrow> 'a tensor option \<Rightarrow> 'a tensor option
     \<Rightarrow> error + 'a tensor dict" where
  "ClassPredictor K normalized x query_embeddings query_mask =
     (case (query_embeddings, query_mask) of
        (Some _, None) \<Rightarrow> Inl InvalidArgument
      | (None, Some _) \<Rightarrow> Inl InvalidArgument
      | (None, None) \<Rightarrow>
          (case shape x of
             [b, p, d] \<Rightarrow>
               Inr [(''class_embeddings'',
                     Tensor [b, p, out_dim K]
                       (concat (map (\<lambda>n. project K (row x d n)) [0..<b * p])))]
           | _ \<Rightarrow> Inl ShapeError)
      | (Some qe, Some qm) \<Rightarrow>
          (case shape x of
             [b, p, d] \<Rightarrow>
               (case shape qe of
                  [b', q, e] \<Rightarrow>
                    if b' = b \<and> e = out_dim K \<and> shape qm = [b, q] then
                      let class_embeddings =
                            Tensor [b, p, out_dim K]
                              (concat (map (\<lambda>n. project K (row x d n)) [0..<b * p]))
                      in Inr [(''class_embeddings'', class_embeddings),
                              (''pred_logits'',
                               Tensor [b, p, q]
                                 [if elems qm ! (i * q + k) = 0 then masked_logit K
                                  else similarity K normalized
                                         (row class_embeddings e (i * p + j)) (row qe e (i * q + k)).
                                  i \<leftarrow> [0..<b], j \<leftarrow> [0..<p], k \<leftarrow> [0..<q]])]
                    else Inl ShapeError
                | _ \<Rightarrow> Inl ShapeError)
           | _ \<Rightarrow> Inl ShapeError))"

text \<open>
  The module: its attributes \<open>normalize\<close> and \<open>box_bias\<close>, and what \<open>setup\<close>
  attaches. \<open>embed_images\<close> and \<open>embed_texts\<close> stand for the image features of
  \<open>self._embedder(images=images, train=train)\<close> and the text features of
  \<open>self._embedder(texts=text_queries, train=train)\<close>; \<open>box_head\<close> stands for
  \<open>self._box_head\<close>, the three-layer predictor head of \<open>layers\<close> with \<open>out_dim=4\<close>. Both classes are
  outside the sources and are parameters. \<open>body_configs\<close> only selects the class
  head's \<open>out_dim\<close>.
\<close>

record 'a module =
  normalize :: bool
  box_bias :: string
  embed_images :: "'a tensor \<Rightarrow> bool \<Rightarrow> error + 'a tensor"
  embed_texts :: "int32 tensor \<Rightarrow> bool \<Rightarrow> error + 'a tensor"
  class_head :: "'a class_kernels"
  box_head :: "'a tensor \<Rightarrow> error + 'a tensor"

text \<open>
  \<open>utils.seq2img\<close>, \<open>utils.compute_box_bias\<close> and the scalar function behind
  \<open>nn.sigmoid\<close> are parameters as well.
\<close>

record 'a utils =
  seq2img :: "'a tensor \<Rightarrow> 'a tensor \<Rightarrow> error + 'a tensor"
  compute_box_bias :: "'a tensor \<Rightarrow> string \<Rightarrow> error + 'a tensor"
  sigmoid :: "'a \<Rightarrow> 'a"

subsection \<open>The methods of TextZeroShotDetectionModule\<close>

definition box_predictor ::
  "'a::plus utils \<Rightarrow> 'a module \<Rightarrow> 'a tensor \<Rightarrow> 'a tensor \<Rightarrow> error + 'a tensor dict" where
  "box_predictor U m image_features feature_map =
     bind_err (box_head m image_features) (\<lambda>pred_boxes.
     bind_err (compute_box_bias U feature_map (box_bias m)) (\<lambda>bias.
     bind_err (add pred_boxes bias) (\<lambda>pred_boxes.
     Inr [(''pred_boxes'', tmap (sigmoid U) pred_boxes)])))"

definition class_predictor ::
  "'a::zero module \<Rightarrow> 'a tensor \<Rightarrow> 'a tensor option \<Rightarrow> 'a tensor option
     \<Rightarrow> error + 'a tensor dict" where
  "class_predictor m image_features query_embeddings query_mask =
     ClassPredictor (class_head m) (normalize m) image_features query_embeddings query_mask"

definition image_embedder ::
  "'a utils \<Rightarrow> 'a module \<Rightarrow> 'a tensor \<Rightarrow> bool \<Rightarrow> error + 'a tensor" where
  "image_embedder U m images train =
     bind_err (embed_images m images train) (\<lambda>image_features.
     seq2img U images image_features)"

definition text_embedder :: "'a module \<Rightarrow> int32 tensor \<Rightarrow> bool \<Rightarrow> error + 'a tensor" where
  "text_embedder m text_queries train = embed_texts m text_queries train"

text \<open>
  \<open>(text_queries[..., 0] > 0).astype(jnp.float32)\<close>: the comparison is the signed one
  of int32, and a truth value becomes 1 or 0.
\<close>

definition query_mask_of :: "int32 tensor \<Rightarrow> error + 'a::zero_neq_one tensor" where
  "query_mask_of text_queries =
     bind_err (select_first text_queries) (\<lambda>first.
     Inr (tmap (\<lambda>token. of_bool (0 <s token)) first))"

definition call ::
  "'a::{plus,zero_neq_one} utils \<Rightarrow> 'a module \<Rightarrow> 'a tensor \<Rightarrow> int32 tensor \<Rightarrow> bool
     \<Rightarrow> error + 'a tensor dict" where
  "call U m inputs text_queries train =
     bind_err (image_embedder U m inputs train) (\<lambda>feature_map.
     case shape feature_map of
       [b, h, w, d] \<Rightarrow>
         bind_err (reshape feature_map [b, h * w, d]) (\<lambda>image_features.
         bind_err (text_embedder m text_queries train) (\<lambda>query_embeddings.
         bind_err (query_mask_of text_queries) (\<lambda>query_mask.
         let outputs = [(''feature_map'', feature_map),
                        (''query_embeddings'', query_embeddings)] in
         bind_err (class_predictor m image_features (Some query_embeddings) (Some query_mask))
           (\<lambda>classes.
         let outputs = dict_update outputs classes in
         bind_err (box_predictor U m image_features feature_map) (\<lambda>boxes.
         let outputs = dict_update outputs boxes in
         Inr outputs)))))
     | _ \<Rightarrow> Inl ValueError)"

subsection \<open>Example checkpoints, configurations and modules\<close>

text \<open>Small concrete inputs, used to evaluate the methods.\<close>

definition default_config :: init_config where
  "default_config = \<lparr>codebase = None, checkpoint_path = Some ''ckpt''\<rparr>"

definition clip_config :: init_config where
  "clip_config = \<lparr>codebase = Some ''clip'', checkpoint_path = Some ''clip_ckpt''\<rparr>"

definition keep_backbone :: "nat backbone_loader" where
  "keep_backbone old path = Inr old"

definition fresh_backbone :: "nat backbone_loader" where
  "fresh_backbone old path = Inr (Dict [(''visual'', Leaf 7)])"

definition head_params :: "nat pytree" where
  "head_params = Dict [(''backbone'', Leaf 1),
     (''class_head'', Dict [(''padding'', Leaf 2), (''Dense_0'', Leaf 3), (''padding_bias'', Leaf 4)]),
     (''obj_box_head'', Leaf 5)]"

definition stripped_params :: "nat pytree" where
  "stripped_params = Dict [(''backbone'', Leaf 1),
     (''class_head'', Dict [(''Dense_0'', Leaf 3)]),
     (''obj_box_head'', Leaf 5)]"

definition params_ckpt :: "nat restore" where
  "params_ckpt path = Some [(''params'', head_params)]"

definition optimizer_ckpt :: "nat restore" where
  "optimizer_ckpt path = Some [(''optimizer'', Dict [(''target'', head_params)])]"

definition headless_ckpt :: "nat restore" where
  "headless_ckpt path = Some [(''optimizer'', Dict [(''target'', Dict [(''backbone'', Leaf 1)])])]"

definition both_ckpt :: "nat restore" where
  "both_ckpt path = Some [(''params'', Leaf 9), (''optimizer'', Dict [(''target'', head_params)])]"

definition step_only_ckpt :: "nat restore" where
  "step_only_ckpt path = Some [(''global_step'', Leaf 0)]"

definition negative_query :: "int32 tensor" where
  "negative_query = Tensor [1, 1, 2] [- 1, 5]"

definition mixed_queries :: "int32 tensor" where
  "mixed_queries = Tensor [1, 3, 2] [0, 7, 49406, 0, 3, 3]"

definition demo_kernels :: "int class_kernels" where
  "demo_kernels = \<lparr>out_dim = 1, project = (\<lambda>v. v),
     similarity = (\<lambda>normalized x y. sum_list (map2 (*) x y)), masked_logit = - 1000000\<rparr>"

definition demo_module :: "int module" where
  "demo_module = \<lparr>normalize = False, box_bias = ''both'',
     embed_images = (\<lambda>images train. Inr (Tensor [1, 2, 1] [1, 2])),
     embed_texts = (\<lambda>text_queries train. Inr (Tensor [1, 3, 1] [1, 1, 1])),
     class_head = demo_kernels,
     box_head = (\<lambda>image_features. Inr (Tensor [1, 2, 4] [0, 0, 0, 0, 0, 0, 0, 0]))\<rparr>"

definition demo_utils :: "int utils" where
  "demo_utils =
     \<lparr>seq2img = (\<lambda>images image_features. Inr (Tensor [1, 1, 2, 1] (elems image_features))),
      compute_box_bias = (\<lambda>feature_map kind. Inr (Tensor [2, 4] [1, 2, 3, 4, 5, 6, 7, 8])),
      sigmoid = (\<lambda>x. x)\<rparr>"

definition demo_images :: "int tensor" where
  "demo_images = Tensor [1, 1, 2, 3] [0, 0, 0, 0, 0, 0]"

section \<open>Properties\<close>

subsection \<open>Auxiliary facts\<close>

lemma bind_err_simps [simp]:
  "bind_err (Inl e) f = Inl e"
  "bind_err (Inr v) f = f v"
  by (simp_all add: bind_err_def)

lemma dict_getitem_Some: "map_of d k = Some v \<Longrightarrow> dict_getitem d k = Inr v"
  by (simp add: dict_getitem_def)

lemma pop_in_Dict:
  assumes "map_of kvs k = Some (Dict d)"
  shows "pop_in (Dict kvs) k key = Inr (Dict (AList.update k (Dict (AList.delete key d)) kvs))"
  using assms by (simp add: pop_in_def getitem_def setitem_def dict_getitem_Some)

text \<open>The two \<open>pop\<close> calls at the end of \<open>load\<close>, on a tree with a class head.\<close>

lemma strip_twice:
  assumes "map_of kvs ''class_head'' = Some (Dict ch)"
  shows "bind_err (pop_in (Dict kvs) ''class_head'' ''padding'') (\<lambda>params.
           pop_in params ''class_head'' ''padding_bias'')
         = Inr (Dict (AList.update ''class_head''
                  (Dict (AList.delete ''padding_bias'' (AList.delete ''padding'' ch))) kvs))"
proof -
  let ?kvs1 = "AList.update ''class_head'' (Dict (AList.delete ''padding'' ch)) kvs"
  have 1: "pop_in (Dict kvs) ''class_head'' ''padding'' = Inr (Dict ?kvs1)"
    using assms by (rule pop_in_Dict)
  have "map_of ?kvs1 ''class_head'' = Some (Dict (AList.delete ''padding'' ch))"
    by (simp add: update_conv')
  then have 2: "pop_in (Dict ?kvs1) ''class_head'' ''padding_bias''
      = Inr (Dict (AList.update ''class_head''
                  (Dict (AList.delete ''padding_bias'' (AList.delete ''padding'' ch))) ?kvs1))"
    by (rule pop_in_Dict)
  show ?thesis by (simp add: 1 2)
qed

text \<open>\<open>load\<close> outside the clip mode, once the checkpoint has been restored.\<close>

lemma load_default_unfold:
  assumes "codebase cfg \<noteq> Some ''clip''" and "checkpoint_path cfg = Some path"
    and "restore_checkpoint path = Some restored"
  shows "load restore_checkpoint load_backbone params cfg =
     bind_err
       (if contains restored ''optimizer'' then
          bind_err (dict_getitem restored ''optimizer'') (\<lambda>opt. getitem opt ''target'')
        else dict_getitem restored ''params'') (\<lambda>params.
     bind_err (pop_in params ''class_head'' ''padding'') (\<lambda>params.
       pop_in params ''class_head'' ''padding_bias''))"
  using assms by (simp add: load_def)

lemma select_first_shape:
  assumes "shape t = ds @ [l]" and "0 < l"
  shows "select_first t = Inr (Tensor ds (map (\<lambda>k. elems t ! (k * l)) [0..<prod_list ds]))"
  using assms by (simp add: select_first_def Let_def)

lemma query_mask_of_eq:
  assumes "shape text_queries = ds @ [l]" and "0 < l"
  shows "query_mask_of text_queries =
     Inr (Tensor ds (map (\<lambda>k. of_bool (0 <s elems text_queries ! (k * l))) [0..<prod_list ds]))"
  using assms by (simp add: query_mask_of_def select_first_shape tmap_def comp_def)

lemma reshape_ok:
  "prod_list s = prod_list (shape t) \<Longrightarrow> reshape t s = Inr (Tensor s (elems t))"
  by (simp add: reshape_def)

lemma ClassPredictor_both:
  assumes "shape x = [b, p, d]" and "shape qe = [b, q, out_dim K]" and "shape qm = [b, q]"
  shows "\<exists>ce pl. ClassPredictor K n x (Some qe) (Some qm) =
            Inr [(''class_embeddings'', ce), (''pred_logits'', pl)]
          \<and> shape ce = [b, p, out_dim K] \<and> shape pl = [b, p, q]"
  using assms by (simp add: ClassPredictor_def Let_def)

lemma broadcast_shapes_bias: "broadcast_shapes [b, p, 4] [p, 4] = Some [b, p, 4]"
  by (simp add: broadcast_shapes_def)

lemma box_predictor_shape:
  assumes "box_head m image_features = Inr raw" and "shape raw = [b, p, 4]"
    and "compute_box_bias U feature_map (box_bias m) = Inr bias" and "shape bias = [p, 4]"
  shows "\<exists>pb. box_predictor U m image_features feature_map = Inr [(''pred_boxes'', pb)]
          \<and> shape pb = [b, p, 4]"
  using assms by (simp add: box_predictor_def add_def broadcast_shapes_bias tmap_def)

text \<open>
  The forward pass on a batch for which the embedder, the box head and the box bias
  deliver arrays of the documented shapes.
\<close>

lemma call_result:
  assumes "image_embedder U m inputs train = Inr feature_map"
    and "shape feature_map = [b, h, w, d]"
    and "text_embedder m text_queries train = Inr query_embeddings"
    and "shape text_queries = [b, q, l]" and "0 < l"
    and "shape query_embeddings = [b, q, out_dim (class_head m)]"
    and "box_head m (Tensor [b, h * w, d] (elems feature_map)) = Inr raw"
    and "shape raw = [b, h * w, 4]"
    and "compute_box_bias U feature_map (box_bias m) = Inr bias"
    and "shape bias = [h * w, 4]"
  shows "\<exists>class_embeddings pred_logits pred_boxes.
           call U m inputs text_queries train =
             Inr [(''feature_map'', feature_map), (''query_embeddings'', query_embeddings),
                  (''class_embeddings'', class_embeddings), (''pred_logits'', pred_logits),
                  (''pred_boxes'', pred_boxes)]
         \<and> shape pred_logits = [b, h * w, q] \<and> shape pred_boxes = [b, h * w, 4]"
proof -
  let ?f = "Tensor [b, h * w, d] (elems feature_map)"
  have r: "reshape feature_map [b, h * w, d] = Inr ?f"
    using assms(2) by (simp add: reshape_ok)
  define qm :: "'a tensor" where
    "qm = Tensor [b, q]
       (map (\<lambda>k. of_bool (0 <s elems text_queries ! (k * l))) [0..<prod_list [b, q]])"
  have "shape text_queries = [b, q] @ [l]" using assms(4) by simp
  then have qm: "query_mask_of text_queries = Inr qm"
    unfolding qm_def using assms(5) by (rule query_mask_of_eq)
  have sqm: "shape qm = [b, q]" by (simp add: qm_def)
  have "shape ?f = [b, h * w, d]" by simp
  from ClassPredictor_both [OF this assms(6) sqm]
  obtain ce pl where cp: "class_predictor m ?f (Some query_embeddings) (Some qm) =
            Inr [(''class_embeddings'', ce), (''pred_logits'', pl)]"
    and spl: "shape pl = [b, h * w, q]"
    unfolding class_predictor_def by blast
  from box_predictor_shape [OF assms(7-10)]
  obtain pb where bp: "box_predictor U m ?f feature_map = Inr [(''pred_boxes'', pb)]"
    and spb: "shape pb = [b, h * w, 4]"
    by blast
  have "call U m inputs text_queries train =
             Inr [(''feature_map'', feature_map), (''query_embeddings'', query_embeddings),
                  (''class_embeddings'', ce), (''pred_logits'', pl), (''pred_boxes'', pb)]"
    by (simp add: call_def assms(1,2,3) r qm cp bp dict_update_def)
  with spl spb show ?thesis by blast
qed

text \<open>The forward pass of the example module, evaluated.\<close>

lemma demo_call:
  "call demo_utils demo_module demo_images mixed_queries False =
     Inr [(''feature_map'', Tensor [1, 1, 2, 1] [1, 2]),
          (''query_embeddings'', Tensor [1, 3, 1] [1, 1, 1]),
          (''class_embeddings'', Tensor [1, 2, 1] [1, 2]),
          (''pred_logits'', Tensor [1, 2, 3] [- 1000000, 1, 1, - 1000000, 2, 2]),
          (''pred_boxes'', Tensor [1, 2, 4] [1, 2, 3, 4, 5, 6, 7, 8])]"
  by code_simp

subsection \<open>The query mask\<close>

text \<open>
  Claim C1, as the code has it: the mask of the forward pass is computed from the first
  token of each query alone. For token arrays of shape \<open>ds @ [l]\<close> with \<open>l > 0\<close>,
  the query at flat position \<open>k\<close> gets mask value 1 when its first token (the entry at
  \<open>k * l\<close>) is positive and mask value 0 otherwise, that is when the first token is 0
  or negative; no later token of the query occurs in the result.
\<close>

theorem query_mask_first_token_positive:
  assumes "shape text_queries = ds @ [l]" and "0 < l"
  shows "query_mask_of text_queries =
     Inr (Tensor ds
       (map (\<lambda>k. if 0 <s elems text_queries ! (k * l) then 1 else 0) [0..<prod_list ds]))"
  by (simp only: query_mask_of_eq [OF assms] of_bool_def)

theorem query_mask_first_token_positive_witness:
  "query_mask_of mixed_queries = Inr (Tensor [1, 3] [0, 1, 1 :: int])"
proof -
  have s: "shape mixed_queries = [1, 3] @ [2]" by (simp add: mixed_queries_def)
  have n: "[0..<3] = [0, 1, 2]" by (simp add: upt_rec)
  have e: "elems mixed_queries ! 0 = 0" "elems mixed_queries ! 2 = 49406"
     "elems mixed_queries ! 4 = 3"
    by (simp_all add: mixed_queries_def)
  have w: "\<not> (0::int32) <s 0" "(0::int32) <s 49406"  "(0::int32) <s 3"
    by (simp_all add: word_sless_alt)
  show ?thesis
    using query_mask_first_token_positive [OF s, where 'a = int] by (simp add: n e w)
qed

text \<open>
  A nonzero first token does not always give mask value 1: the single query
  \<open>[-1, 5]\<close> starts with a nonzero token and its mask value is 0.
\<close>

theorem query_mask_nonzero_counterexample:
  "elems negative_query ! 0 \<noteq> 0
   \<and> query_mask_of negative_query = Inr (Tensor [1, 1] [0 :: int])"
  by (simp add: negative_query_def query_mask_of_def select_first_def tmap_def word_sless_alt)

subsection \<open>Loading parameters\<close>

text \<open>
  Claim C3: \<open>load_variables\<close> returns the parameters under the single key
  \<open>params\<close>. When the restored mapping has a \<open>params\<close> key its content is used
  (whatever else the mapping holds); when it has none, the content of \<open>optimizer\<close>,
  \<open>target\<close> is used; and every result the method returns is a one-entry mapping with
  the key \<open>params\<close>.
\<close>

theorem load_variables_normalises:
  assumes "restore_checkpoint path = Some restored"
  shows "(\<forall>p. map_of restored ''params'' = Some p \<longrightarrow>
            load_variables restore_checkpoint path = Inr [(''params'', p)])
       \<and> (\<forall>opt t. map_of restored ''params'' = None \<and>
              map_of restored ''optimizer'' = Some (Dict opt) \<and> map_of opt ''target'' = Some t \<longrightarrow>
            load_variables restore_checkpoint path = Inr [(''params'', t)])
       \<and> (\<forall>r. load_variables restore_checkpoint path = Inr r \<longrightarrow> (\<exists>x. r = [(''params'', x)]))"
  using assms
  by (auto simp: load_variables_def contains_def dict_getitem_def getitem_def bind_err_def
      split: option.splits pytree.splits if_splits)

theorem load_variables_normalises_witness:
  "load_variables params_ckpt ''ckpt'' = Inr [(''params'', head_params)]
   \<and> load_variables optimizer_ckpt ''ckpt'' = Inr [(''params'', head_params)]
   \<and> load_variables both_ckpt ''ckpt'' = Inr [(''params'', Leaf 9)]"
proof -
  have p: "params_ckpt ''ckpt'' = Some [(''params'', head_params)]"
    by (simp add: params_ckpt_def)
  have o: "optimizer_ckpt ''ckpt'' = Some [(''optimizer'', Dict [(''target'', head_params)])]"
    by (simp add: optimizer_ckpt_def)
  have b: "both_ckpt ''ckpt'' =
      Some [(''params'', Leaf 9), (''optimizer'', Dict [(''target'', head_params)])]"
    by (simp add: both_ckpt_def)
  have 1: "load_variables params_ckpt ''ckpt'' = Inr [(''params'', head_params)]"
    using load_variables_normalises [where restore_checkpoint = params_ckpt, OF p] by simp
  have 2: "load_variables optimizer_ckpt ''ckpt'' = Inr [(''params'', head_params)]"
    using load_variables_normalises [where restore_checkpoint = optimizer_ckpt, OF o] by simp
  have 3: "load_variables both_ckpt ''ckpt'' = Inr [(''params'', Leaf 9)]"
    using load_variables_normalises [where restore_checkpoint = both_ckpt, OF b] by simp
  show ?thesis using 1 2 3 by simp
qed

text \<open>
  Claim C2, as the code has it: outside the clip mode, for a restored mapping that is
  either \<open>optimizer\<close> alone (with a nested \<open>target\<close>) or \<open>params\<close> alone, and
  whose parameter content has a \<open>class_head\<close> mapping, \<open>load\<close> returns that content
  with the keys \<open>padding\<close> and \<open>padding_bias\<close> removed from \<open>class_head\<close>. The
  two \<open>pop\<close> calls follow the \<open>if\<close>/\<open>else\<close> on the checkpoint layout, so
  both layouts are stripped alike.
\<close>

theorem load_default_strips_both:
  assumes "codebase cfg \<noteq> Some ''clip''" and "checkpoint_path cfg = Some path"
    and "restore_checkpoint path = Some restored"
    and "(\<exists>opt. restored = [(''optimizer'', Dict opt)] \<and> map_of opt ''target'' = Some (Dict content))
         \<or> restored = [(''params'', Dict content)]"
    and "map_of content ''class_head'' = Some (Dict ch)"
  shows "load restore_checkpoint load_backbone params cfg =
     Inr (Dict (AList.update ''class_head''
            (Dict (AList.delete ''padding_bias'' (AList.delete ''padding'' ch))) content))"
proof -
  have "(if contains restored ''optimizer'' then
          bind_err (dict_getitem restored ''optimizer'') (\<lambda>opt. getitem opt ''target'')
        else dict_getitem restored ''params'') = Inr (Dict content)"
    using assms(4) by (auto simp: contains_def dict_getitem_def getitem_def)
  moreover have "load restore_checkpoint load_backbone params cfg =
     bind_err
       (if contains restored ''optimizer'' then
          bind_err (dict_getitem restored ''optimizer'') (\<lambda>opt. getitem opt ''target'')
        else dict_getitem restored ''params'') (\<lambda>params.
     bind_err (pop_in params ''class_head'' ''padding'') (\<lambda>params.
       pop_in params ''class_head'' ''padding_bias''))"
    using assms(1-3) by (rule load_default_unfold)
  ultimately show ?thesis
    using strip_twice [OF assms(5)] by simp
qed

theorem load_default_strips_both_witness:
  "load optimizer_ckpt keep_backbone (Leaf 0) default_config = Inr stripped_params
   \<and> load params_ckpt keep_backbone (Leaf 0) default_config = Inr stripped_params"
proof -
  have c: "codebase default_config \<noteq> Some ''clip''" "checkpoint_path default_config = Some ''ckpt''"
    by (simp_all add: default_config_def)
  let ?content = "[(''backbone'', Leaf 1),
     (''class_head'', Dict [(''padding'', Leaf 2), (''Dense_0'', Leaf 3), (''padding_bias'', Leaf 4)]),
     (''obj_box_head'', Leaf (5::nat))]"
  have h: "map_of ?content ''class_head'' =
      Some (Dict [(''padding'', Leaf 2), (''Dense_0'', Leaf 3), (''padding_bias'', Leaf 4)])"
    by simp
  have o: "optimizer_ckpt ''ckpt'' = Some [(''optimizer'', Dict [(''target'', Dict ?content)])]"
    by (simp add: optimizer_ckpt_def head_params_def)
  have p: "params_ckpt ''ckpt'' = Some [(''params'', Dict ?content)]"
    by (simp add: params_ckpt_def head_params_def)
  have 1: "load optimizer_ckpt keep_backbone (Leaf 0) default_config = Inr stripped_params"
    using load_default_strips_both [where cfg = default_config and path = "''ckpt''"
        and restore_checkpoint = optimizer_ckpt and content = ?content
        and load_backbone = keep_backbone and params = "Leaf 0"] c o h
    by (simp add: stripped_params_def AList.delete_eq)
  have 2: "load params_ckpt keep_backbone (Leaf 0) default_config = Inr stripped_params"
    using load_default_strips_both [where cfg = default_config and path = "''ckpt''"
        and restore_checkpoint = params_ckpt and content = ?content
        and load_backbone = keep_backbone and params = "Leaf 0"] c p h
    by (simp add: stripped_params_def AList.delete_eq)
  show ?thesis using 1 2 by simp
qed

text \<open>
  The \<open>params\<close> layout is not returned unchanged: a checkpoint holding only
  \<open>params\<close>, with \<open>padding\<close> under its class head, does not load to that content.
  And for a checkpoint holding only \<open>optimizer\<close>, \<open>target\<close> whose content has no
  \<open>class_head\<close>, nothing is returned: the lookup of \<open>class_head\<close> raises KeyError.
\<close>

theorem load_params_branch_counterexample:
  "load params_ckpt keep_backbone (Leaf 0) default_config \<noteq> Inr head_params
   \<and> load headless_ckpt keep_backbone (Leaf 0) default_config = Inl KeyError"
  by (simp add: load_def params_ckpt_def headless_ckpt_def default_config_def head_params_def
      contains_def dict_getitem_def getitem_def setitem_def pop_in_def AList.delete_eq)

text \<open>
  Claim C7: in the clip mode, on a parameter mapping with a \<open>backbone\<close> entry that the
  backbone loader accepts, \<open>load\<close> returns the mapping with the \<open>backbone\<close> entry
  replaced by the loader's result. Every other key is looked up to exactly what was
  supplied (so nothing is removed from \<open>class_head\<close>), and the keys and their order
  are the same.
\<close>

theorem load_clip_replaces_backbone_only:
  assumes "codebase cfg = Some ''clip''"
    and "map_of kvs ''backbone'' = Some old"
    and "load_backbone old (checkpoint_path cfg) = Inr new"
  shows "load restore_checkpoint load_backbone (Dict kvs) cfg =
           Inr (Dict (AList.update ''backbone'' new kvs))
       \<and> (\<forall>k. k \<noteq> ''backbone'' \<longrightarrow>
             map_of (AList.update ''backbone'' new kvs) k = map_of kvs k)
       \<and> map fst (AList.update ''backbone'' new kvs) = map fst kvs"
proof -
  have "''backbone'' \<in> fst ` set kvs"
    using assms(2) by (metis map_of_eq_None_iff option.distinct(1))
  then have keys: "map fst (AList.update ''backbone'' new kvs) = map fst kvs"
    by (simp add: update_keys)
  have "load restore_checkpoint load_backbone (Dict kvs) cfg =
      Inr (Dict (AList.update ''backbone'' new kvs))"
    using assms by (simp add: load_def getitem_def setitem_def dict_getitem_def)
  then show ?thesis
    using keys by (simp add: update_conv')
qed

theorem load_clip_replaces_backbone_only_witness:
  "load params_ckpt fresh_backbone head_params clip_config =
     Inr (Dict [(''backbone'', Dict [(''visual'', Leaf 7)]),
       (''class_head'', Dict [(''padding'', Leaf 2), (''Dense_0'', Leaf 3), (''padding_bias'', Leaf 4)]),
       (''obj_box_head'', Leaf 5)])"
proof -
  let ?kvs = "[(''backbone'', Leaf 1),
     (''class_head'', Dict [(''padding'', Leaf 2), (''Dense_0'', Leaf 3), (''padding_bias'', Leaf 4)]),
     (''obj_box_head'', Leaf (5::nat))]"
  have c: "codebase clip_config = Some ''clip''" by (simp add: clip_config_def)
  have b: "map_of ?kvs ''backbone'' = Some (Leaf 1)" by simp
  have l: "fresh_backbone (Leaf 1) (checkpoint_path clip_config) = Inr (Dict [(''visual'', Leaf 7)])"
    by (simp add: fresh_backbone_def)
  show ?thesis
    using load_clip_replaces_backbone_only [where restore_checkpoint = params_ckpt
        and load_backbone = fresh_backbone, OF c b l]
    by (simp add: head_params_def)
qed

text \<open>
  Claim C8: when the restored mapping has no \<open>params\<close> key and no \<open>optimizer\<close>
  mapping with a \<open>target\<close> key, neither \<open>load_variables\<close> nor \<open>load\<close> outside the
  clip mode returns parameters: both raise (KeyError for the missing key, IndexError
  when \<open>optimizer\<close> holds an array).
\<close>

theorem malformed_checkpoint_fails:
  assumes "restore_checkpoint path = Some restored"
    and "map_of restored ''params'' = None"
    and "\<forall>opt. map_of restored ''optimizer'' = Some (Dict opt) \<longrightarrow> map_of opt ''target'' = None"
    and "codebase cfg \<noteq> Some ''clip''" and "checkpoint_path cfg = Some path"
  shows "load_variables restore_checkpoint path \<in> {Inl KeyError, Inl IndexError}
       \<and> load restore_checkpoint load_backbone params cfg \<in> {Inl KeyError, Inl IndexError}"
proof -
  have lv: "load_variables restore_checkpoint path \<in> {Inl KeyError, Inl IndexError}"
    using assms(1-3)
    by (auto simp: load_variables_def contains_def dict_getitem_def getitem_def
        split: option.splits pytree.splits)
  have "load restore_checkpoint load_backbone params cfg =
     bind_err
       (if contains restored ''optimizer'' then
          bind_err (dict_getitem restored ''optimizer'') (\<lambda>opt. getitem opt ''target'')
        else dict_getitem restored ''params'') (\<lambda>params.
     bind_err (pop_in params ''class_head'' ''padding'') (\<lambda>params.
       pop_in params ''class_head'' ''padding_bias''))"
    using assms(4,5,1) by (rule load_default_unfold)
  moreover have "(if contains restored ''optimizer'' then
          bind_err (dict_getitem restored ''optimizer'') (\<lambda>opt. getitem opt ''target'')
        else dict_getitem restored ''params'') \<in> {Inl KeyError, Inl IndexError}"
    using assms(2,3)
    by (auto simp: contains_def dict_getitem_def getitem_def split: option.splits pytree.splits)
  ultimately have "load restore_checkpoint load_backbone params cfg \<in> {Inl KeyError, Inl IndexError}"
    by auto
  with lv show ?thesis by simp
qed

theorem malformed_checkpoint_fails_witness:
  "load_variables step_only_ckpt ''ckpt'' = Inl KeyError
   \<and> load step_only_ckpt keep_backbone (Leaf 0) default_config = Inl KeyError"
proof -
  have r: "step_only_ckpt ''ckpt'' = Some [(''global_step'', Leaf 0)]"
    by (simp add: step_only_ckpt_def)
  have c: "codebase default_config \<noteq> Some ''clip''" "checkpoint_path default_config = Some ''ckpt''"
    by (simp_all add: default_config_def)
  have "load_variables step_only_ckpt ''ckpt'' \<in> {Inl KeyError, Inl IndexError}
       \<and> load step_only_ckpt keep_backbone (Leaf 0) default_config \<in> {Inl KeyError, Inl IndexError}"
    using malformed_checkpoint_fails [where restore_checkpoint = step_only_ckpt
        and cfg = default_config and load_backbone = keep_backbone and params = "Leaf 0", OF r _ _ c]
    by simp
  moreover have "load_variables step_only_ckpt ''ckpt'' \<noteq> Inl IndexError"
    by (simp add: load_variables_def step_only_ckpt_def contains_def dict_getitem_def)
  moreover have "load step_only_ckpt keep_backbone (Leaf 0) default_config \<noteq> Inl IndexError"
    by (simp add: load_def step_only_ckpt_def default_config_def contains_def dict_getitem_def)
  ultimately show ?thesis by auto
qed

text \<open>
  Claim C10: when the restored mapping has both a \<open>params\<close> key and an
  \<open>optimizer\<close> key with a nested \<open>target\<close> (whose content has a class head),
  \<open>load_variables\<close> returns the content of \<open>params\<close> while \<open>load\<close> outside the
  clip mode returns the content of \<open>optimizer\<close>, \<open>target\<close> after stripping; so
  whenever those two differ, the two methods return different parameters.
\<close>

theorem loaders_disagree_on_precedence:
  assumes "restore_checkpoint path = Some restored"
    and "map_of restored ''params'' = Some p"
    and "map_of restored ''optimizer'' = Some (Dict opt)"
    and "map_of opt ''target'' = Some (Dict t)"
    and "map_of t ''class_head'' = Some (Dict ch)"
    and "codebase cfg \<noteq> Some ''clip''" and "checkpoint_path cfg = Some path"
  shows "load_variables restore_checkpoint path = Inr [(''params'', p)]
       \<and> load restore_checkpoint load_backbone params cfg =
           Inr (Dict (AList.update ''class_head''
                  (Dict (AList.delete ''padding_bias'' (AList.delete ''padding'' ch))) t))
       \<and> (p \<noteq> Dict (AList.update ''class_head''
                  (Dict (AList.delete ''padding_bias'' (AList.delete ''padding'' ch))) t) \<longrightarrow>
           load_variables restore_checkpoint path \<noteq>
             bind_err (load restore_checkpoint load_backbone params cfg)
               (\<lambda>loaded. Inr [(''params'', loaded)]))"
proof -
  have lv: "load_variables restore_checkpoint path = Inr [(''params'', p)]"
    using assms(1,2) by (simp add: load_variables_def contains_def dict_getitem_def)
  have "load restore_checkpoint load_backbone params cfg =
     bind_err
       (if contains restored ''optimizer'' then
          bind_err (dict_getitem restored ''optimizer'') (\<lambda>opt. getitem opt ''target'')
        else dict_getitem restored ''params'') (\<lambda>params.
     bind_err (pop_in params ''class_head'' ''padding'') (\<lambda>params.
       pop_in params ''class_head'' ''padding_bias''))"
    using assms(6,7,1) by (rule load_default_unfold)
  moreover have "(if contains restored ''optimizer'' then
          bind_err (dict_getitem restored ''optimizer'') (\<lambda>opt. getitem opt ''target'')
        else dict_getitem restored ''params'') = Inr (Dict t)"
    using assms(3,4) by (simp add: contains_def dict_getitem_def getitem_def)
  ultimately have ld: "load restore_checkpoint load_backbone params cfg =
           Inr (Dict (AList.update ''class_head''
                  (Dict (AList.delete ''padding_bias'' (AList.delete ''padding'' ch))) t))"
    using strip_twice [OF assms(5)] by simp
  show ?thesis by (simp add: lv ld)
qed

theorem loaders_disagree_on_precedence_witness:
  "load_variables both_ckpt ''ckpt'' = Inr [(''params'', Leaf 9)]
   \<and> load both_ckpt keep_backbone (Leaf 0) default_config = Inr stripped_params
   \<and> load_variables both_ckpt ''ckpt'' \<noteq>
       bind_err (load both_ckpt keep_backbone (Leaf 0) default_config)
         (\<lambda>loaded. Inr [(''params'', loaded)])"
proof -
  let ?content = "[(''backbone'', Leaf 1),
     (''class_head'', Dict [(''padding'', Leaf 2), (''Dense_0'', Leaf 3), (''padding_bias'', Leaf 4)]),
     (''obj_box_head'', Leaf (5::nat))]"
  let ?restored = "[(''params'', Leaf 9), (''optimizer'', Dict [(''target'', Dict ?content)])]"
  have r: "both_ckpt ''ckpt'' = Some ?restored"
    by (simp add: both_ckpt_def head_params_def)
  have c: "codebase default_config \<noteq> Some ''clip''" "checkpoint_path default_config = Some ''ckpt''"
    by (simp_all add: default_config_def)
  have h: "map_of ?restored ''params'' = Some (Leaf 9)"
    "map_of ?restored ''optimizer'' = Some (Dict [(''target'', Dict ?content)])"
    "map_of [(''target'', Dict ?content)] ''target'' = Some (Dict ?content)"
    "map_of ?content ''class_head'' =
      Some (Dict [(''padding'', Leaf 2), (''Dense_0'', Leaf 3), (''padding_bias'', Leaf 4)])"
    by simp_all
  show ?thesis
    using loaders_disagree_on_precedence [where restore_checkpoint = both_ckpt
        and load_backbone = keep_backbone and params = "Leaf 0", OF r h c]
    by (simp add: stripped_params_def AList.delete_eq)
qed

subsection \<open>The prediction heads and the forward pass\<close>

text \<open>
  Claim C6: \<open>class_predictor\<close> fails with InvalidArgument whenever exactly one of
  \<open>query_embeddings\<close> and \<open>query_mask\<close> is supplied, and whenever it returns a
  result, either both were supplied or both were absent.
\<close>

theorem class_predictor_requires_both:
  "((query_embeddings = None) \<noteq> (query_mask = None) \<longrightarrow>
      class_predictor m image_features query_embeddings query_mask = Inl InvalidArgument)
   \<and> (\<forall>r. class_predictor m image_features query_embeddings query_mask = Inr r \<longrightarrow>
         (query_embeddings = None) = (query_mask = None))"
  by (cases query_embeddings; cases query_mask)
     (simp_all add: class_predictor_def ClassPredictor_def)

theorem class_predictor_requires_both_witness:
  "class_predictor demo_module (Tensor [1, 2, 1] [1, 2]) (Some (Tensor [1, 3, 1] [1, 1, 1])) None
     = Inl InvalidArgument
   \<and> class_predictor demo_module (Tensor [1, 2, 1] [1, 2]) None (Some (Tensor [1, 3] [0, 1, 1]))
     = Inl InvalidArgument
   \<and> class_predictor demo_module (Tensor [1, 2, 1] [1, 2]) None None
     = Inr [(''class_embeddings'', Tensor [1, 2, 1] [1, 2])]"
proof -
  have 1: "class_predictor demo_module (Tensor [1, 2, 1] [1, 2])
      (Some (Tensor [1, 3, 1] [1, 1, 1])) None = Inl InvalidArgument"
    using class_predictor_requires_both [of "Some (Tensor [1, 3, 1] [1, 1, 1])" None demo_module
        "Tensor [1, 2, 1] [1, 2]"]
    by simp
  have 2: "class_predictor demo_module (Tensor [1, 2, 1] [1, 2]) None
      (Some (Tensor [1, 3] [0, 1, 1])) = Inl InvalidArgument"
    using class_predictor_requires_both [of None "Some (Tensor [1, 3] [0, 1, 1])" demo_module
        "Tensor [1, 2, 1] [1, 2]"]
    by simp
  have 3: "class_predictor demo_module (Tensor [1, 2, 1] [1, 2]) None None
     = Inr [(''class_embeddings'', Tensor [1, 2, 1] [1, 2])]"
    by (simp add: class_predictor_def ClassPredictor_def demo_module_def demo_kernels_def row_def
        upt_rec)
  show ?thesis using 1 2 3 by simp
qed

text \<open>
  Claim C5, as the code has it: on a batch for which the embedder yields a feature map of
  shape [b, h, w, d] and query embeddings of shape [b, q, d'] for text queries of shape
  [b, q, l] (with l > 0 and d' the class head's output dimension), the box head yields
  [b, h * w, 4] and the box bias [h * w, 4], the forward pass returns a mapping with the
  keys \<open>feature_map\<close>, \<open>query_embeddings\<close>, \<open>class_embeddings\<close>,
  \<open>pred_logits\<close> and \<open>pred_boxes\<close>, in which \<open>pred_logits\<close> has shape
  [b, h * w, q] and \<open>pred_boxes\<close> has shape [b, h * w, 4].
\<close>

theorem forward_outputs:
  assumes "image_embedder U m inputs train = Inr feature_map"
    and "shape feature_map = [b, h, w, d]"
    and "text_embedder m text_queries train = Inr query_embeddings"
    and "shape text_queries = [b, q, l]" and "0 < l"
    and "shape query_embeddings = [b, q, out_dim (class_head m)]"
    and "box_head m (Tensor [b, h * w, d] (elems feature_map)) = Inr raw"
    and "shape raw = [b, h * w, 4]"
    and "compute_box_bias U feature_map (box_bias m) = Inr bias"
    and "shape bias = [h * w, 4]"
  shows "\<exists>outputs. call U m inputs text_queries train = Inr outputs
         \<and> map fst outputs = [''feature_map'', ''query_embeddings'', ''class_embeddings'',
               ''pred_logits'', ''pred_boxes'']
         \<and> map_of outputs ''feature_map'' = Some feature_map
         \<and> map_of outputs ''query_embeddings'' = Some query_embeddings
         \<and> map_option shape (map_of outputs ''pred_logits'') = Some [b, h * w, q]
         \<and> map_option shape (map_of outputs ''pred_boxes'') = Some [b, h * w, 4]"
proof -
  from call_result [OF assms]
  obtain ce pl pb where "call U m inputs text_queries train =
             Inr [(''feature_map'', feature_map), (''query_embeddings'', query_embeddings),
                  (''class_embeddings'', ce), (''pred_logits'', pl), (''pred_boxes'', pb)]"
    and "shape pl = [b, h * w, q]" and "shape pb = [b, h * w, 4]"
    by blast
  then show ?thesis by simp
qed

theorem forward_outputs_witness:
  "\<exists>outputs. call demo_utils demo_module demo_images mixed_queries False = Inr outputs
         \<and> map fst outputs = [''feature_map'', ''query_embeddings'', ''class_embeddings'',
               ''pred_logits'', ''pred_boxes'']
         \<and> map_of outputs ''feature_map'' = Some (Tensor [1, 1, 2, 1] [1, 2])
         \<and> map_of outputs ''query_embeddings'' = Some (Tensor [1, 3, 1] [1, 1, 1])
         \<and> map_option shape (map_of outputs ''pred_logits'') = Some [1, 2, 3]
         \<and> map_option shape (map_of outputs ''pred_boxes'') = Some [1, 2, 4]"
proof -
  have 1: "image_embedder demo_utils demo_module demo_images False = Inr (Tensor [1, 1, 2, 1] [1, 2])"
    by (simp add: image_embedder_def demo_utils_def demo_module_def)
  have 2: "shape (Tensor [1, 1, 2, 1] [1, 2 :: int]) = [1, 1, 2, 1]" by simp
  have 3: "text_embedder demo_module mixed_queries False = Inr (Tensor [1, 3, 1] [1, 1, 1])"
    by (simp add: text_embedder_def demo_module_def)
  have 4: "shape mixed_queries = [1, 3, 2]" by (simp add: mixed_queries_def)
  have 5: "0 < (2::nat)" by simp
  have 6: "shape (Tensor [1, 3, 1] [1, 1, 1 :: int]) = [1, 3, out_dim (class_head demo_module)]"
    by (simp add: demo_module_def demo_kernels_def)
  have 7: "box_head demo_module (Tensor [1, 1 * 2, 1] (elems (Tensor [1, 1, 2, 1] [1, 2]))) =
      Inr (Tensor [1, 2, 4] [0, 0, 0, 0, 0, 0, 0, 0])"
    by (simp add: demo_module_def)
  have 8: "shape (Tensor [1, 2, 4] [0, 0, 0, 0, 0, 0, 0, 0 :: int]) = [1, 1 * 2, 4]" by simp
  have 9: "compute_box_bias demo_utils (Tensor [1, 1, 2, 1] [1, 2]) (box_bias demo_module) =
      Inr (Tensor [2, 4] [1, 2, 3, 4, 5, 6, 7, 8])"
    by (simp add: demo_utils_def)
  have 10: "shape (Tensor [2, 4] [1, 2, 3, 4, 5, 6, 7, 8 :: int]) = [1 * 2, 4]" by simp
  from forward_outputs [OF 1 2 3 4 5 6 7 8 9 10] show ?thesis by simp
qed

text \<open>
  The returned mapping does not have exactly the four keys \<open>feature_map\<close>,
  \<open>query_embeddings\<close>, \<open>pred_logits\<close> and \<open>pred_boxes\<close>: the class predictor's
  \<open>class_embeddings\<close> entry is merged in as well.
\<close>

theorem forward_keys_counterexample:
  "map_sum id (map fst) (call demo_utils demo_module demo_images mixed_queries False) =
     Inr [''feature_map'', ''query_embeddings'', ''class_embeddings'', ''pred_logits'',
          ''pred_boxes'']
   \<and> ''class_embeddings'' \<notin> {''feature_map'', ''query_embeddings'', ''pred_logits'', ''pred_boxes''}"
  by (simp add: demo_call)

end
